theory Spec2Isabelle
  imports Main "HOL-Library.Word"
begin

unbundle bit_operations_syntax

section \<open>JavaScript values\<close>

text \<open>
  The values that flow through \<open>ReactFiberReconciler.js\<close>: tree descriptions, callbacks,
  context objects and backing instances. Functions and objects are known by their identity
  only, so equality on \<open>JFunction\<close> and \<open>JObject\<close> is JavaScript's reference equality
  (\<open>===\<close>).
\<close>

datatype jsval =
    JUndefined
  | JNull
  | JBool bool
  | JNum int
  | JStr string
  | JFunction nat
  | JObject nat

fun typeof :: "jsval \<Rightarrow> string" where
  "typeof JUndefined = ''undefined''"
| "typeof JNull = ''object''"
| "typeof (JBool b) = ''boolean''"
| "typeof (JNum n) = ''number''"
| "typeof (JStr s) = ''string''"
| "typeof (JFunction f) = ''function''"
| "typeof (JObject r) = ''object''"

type_synonym ExpirationTime = nat

section \<open>Data model\<close>

text \<open>
  A work node, with the fields this file reads. \<open>child\<close> and \<open>alternate\<close> are
  \<open>Fiber | null\<close>: \<open>None\<close> is \<open>null\<close>. Of \<open>alternate\<close> only the test against
  \<open>null\<close> is ever made here. \<open>mode\<close> is a bit mask; JavaScript's \<open>&\<close> works on
  32-bit integers.
\<close>

datatype fiber =
  Fiber (tag: nat) (type: jsval) (stateNode: jsval) (child: "fiber option")
        (mode: "32 word") (alternate: "fiber option")

text \<open>The root handle (\<open>FiberRoot\<close>); \<open>context'\<close> is its \<open>context\<close> field.\<close>

record FiberRoot =
  current :: fiber
  context' :: jsval
  pendingContext :: jsval
  containerInfo :: jsval

text \<open>
  An update record. \<open>payload\<close> is \<open>null\<close> (\<open>None\<close>) or an object literal, kept as
  the list of its properties.
\<close>

record update =
  expirationTime :: ExpirationTime
  payload :: "(string \<times> jsval) list option"
  callback :: jsval

text \<open>
  A public component handle, as far as this file looks at it: its identity, the value of
  its \<open>render\<close> property and \<open>Object.keys\<close> of it.
\<close>

record component =
  ident :: nat
  render :: jsval
  keys :: "string list"

text \<open>The optional parent handle \<open>?React$Component\<close>.\<close>

datatype handle = HUndefined | HNull | HComponent component

text \<open>The handles that \<open>!parentComponent\<close> takes for no parent.\<close>

fun absent :: "handle \<Rightarrow> bool" where
  "absent HUndefined = True"
| "absent HNull = True"
| "absent (HComponent c) = False"

text \<open>
  What is thrown: an \<open>invariant\<close> failure with its format and arguments (each argument
  here is an array of keys), or the \<open>TypeError\<close> of reading a property of \<open>undefined\<close>.

  Modelled from the spec: \<open>shared/invariant\<close> is not among the sources. A failed
  invariant signals an invariant violation and halts the operation at once with its
  message; every \<open>invariant(false, ...)\<close> below is therefore the error result
  \<open>InvariantViolation\<close>.
\<close>

datatype error =
    InvariantViolation string "string list list"
  | TypeError string

text \<open>The configuration given to \<open>injectIntoDevTools\<close>; an optional field is an option.\<close>

record DevToolsConfig =
  bundleType :: nat
  version :: string
  rendererPackageName :: string
  findFiberByHostInstance :: "(jsval \<Rightarrow> fiber) option"
  getInspectorDataForViewTag :: "(nat \<Rightarrow> jsval) option"

text \<open>
  The object handed to \<open>injectInternals\<close>: the spread configuration and the two lookups
  that follow the spread. \<open>internalsFindFiberByHostInstance\<close> is the property
  \<open>findFiberByHostInstance\<close> of that object (it overrides the spread one).
\<close>

record internals =
  devToolsConfig :: DevToolsConfig
  findHostInstanceByFiber :: "fiber \<Rightarrow> jsval"
  internalsFindFiberByHostInstance :: "jsval \<Rightarrow> fiber option"

section \<open>Effects\<close>

text \<open>
  Calls that leave the module (the console, warnings, the debug tool, the scheduler and the
  update queue) are recorded, in order, as events.
\<close>

datatype event =
    ConsoleLog string
  | ConsoleLogRoot string fiber jsval ExpirationTime
  | Warning string "jsval list"
  | OnMountContainer FiberRoot
  | OnUnmountContainer FiberRoot
  | OnUpdateContainer FiberRoot
  | RequestCurrentTime
  | ComputeExpirationForFiber ExpirationTime fiber
  | CreateUpdate ExpirationTime
  | FlushPassiveEffects
  | EnqueueUpdate fiber update
  | ScheduleWork fiber ExpirationTime

text \<open>
  The module's own variables (\<open>didWarnAboutFindNodeInStrictMode\<close> by the set of keys
  stored in it) and the events so far.
\<close>

record module_state =
  didWarnAboutNestedUpdates :: bool
  didWarnAboutFindNodeInStrictMode :: "string set"
  trace :: "event list"

text \<open>The state when the module has been loaded.\<close>

definition initial_state :: module_state where
  "initial_state =
     \<lparr>didWarnAboutNestedUpdates = False, didWarnAboutFindNodeInStrictMode = {}, trace = []\<rparr>"

definition emit :: "event \<Rightarrow> module_state \<Rightarrow> module_state" where
  "emit ev s = s\<lparr>trace := trace s @ [ev]\<rparr>"

section \<open>Imported bindings\<close>

text \<open>
  Everything the file imports is a parameter: the build flag \<open>__DEV__\<close>, the constants of
  \<open>ReactWorkTags\<close>, \<open>ReactTypeOfMode\<close> and \<open>ReactFiberContext\<close>, the live bindings of
  \<open>ReactCurrentFiber\<close> and \<open>ReactFiberInstrumentation\<close>, and the imported functions with
  the signatures their callers here rely on (\<open>Fiber | null\<close> is an option; \<open>getInstance\<close>
  gives \<open>None\<close> for \<open>undefined\<close>). A run in which one of them throws is not described.
\<close>

record env =
  DEV :: bool
  emptyContextObject :: jsval
  HostComponent :: nat
  ClassComponent :: nat
  StrictMode :: "32 word"
  debugTool :: bool
  ReactCurrentFiberPhase :: "string option"
  ReactCurrentFiberCurrent :: "fiber option"
  getInstance :: "component \<Rightarrow> fiber option"
  findCurrentHostFiber :: "fiber \<Rightarrow> fiber option"
  findCurrentHostFiberWithNoPortals :: "fiber \<Rightarrow> fiber option"
  findCurrentUnmaskedContext :: "fiber \<Rightarrow> jsval"
  isLegacyContextProvider :: "jsval \<Rightarrow> bool"
  processChildContext :: "fiber \<Rightarrow> jsval \<Rightarrow> jsval \<Rightarrow> jsval"
  getComponentName :: "jsval \<Rightarrow> string option"
  getStackByFiberInDevAndProd :: "fiber \<Rightarrow> string"
  getPublicInstance :: "jsval \<Rightarrow> jsval"
  createUpdate :: "ExpirationTime \<Rightarrow> update"
  requestCurrentTime :: ExpirationTime
  computeExpirationForFiber :: "ExpirationTime \<Rightarrow> fiber \<Rightarrow> ExpirationTime"
  injectInternals :: "internals \<Rightarrow> bool"

text \<open>
  Modelled from the spec: \<open>shared/warningWithoutStack\<close> is not among the sources. A
  diagnostic is surfaced only in a development build, as a non-fatal warning, when its
  condition is false; a production build suppresses it.
\<close>

definition warningWithoutStack ::
  "env \<Rightarrow> bool \<Rightarrow> string \<Rightarrow> jsval list \<Rightarrow> module_state \<Rightarrow> module_state" where
  "warningWithoutStack env condition format args s =
     (if DEV env \<and> \<not> condition then emit (Warning format args) s else s)"

text \<open>\<open>name || fallback\<close> on a \<open>string | null\<close>: \<open>null\<close> and the empty string are falsy.\<close>

definition or_default :: "string option \<Rightarrow> string \<Rightarrow> string" where
  "or_default name fallback =
     (case name of None \<Rightarrow> fallback | Some n \<Rightarrow> if n = [] then fallback else n)"

text \<open>
  \<open>didWarnAboutFindNodeInStrictMode\<close> is an object literal, so a lookup also finds what it
  inherits from \<open>Object.prototype\<close>; all of these are truthy.
\<close>

definition objectPrototypeKeys :: "string list" where
  "objectPrototypeKeys =
     [''constructor'', ''hasOwnProperty'', ''isPrototypeOf'', ''propertyIsEnumerable'',
      ''toLocaleString'', ''toString'', ''valueOf'', ''__proto__'', ''__defineGetter__'',
      ''__defineSetter__'', ''__lookupGetter__'', ''__lookupSetter__'']"

definition didWarnLookup :: "module_state \<Rightarrow> string \<Rightarrow> bool" where
  "didWarnLookup s name =
     (name \<in> didWarnAboutFindNodeInStrictMode s \<or> List.member objectPrototypeKeys name)"

section \<open>Message formats\<close>

definition nestedUpdatesFormat :: string where
  "nestedUpdatesFormat =
     ''Render methods should be a pure function of props and state; '' @
     ''triggering nested component updates from render is not allowed. '' @
     ''If necessary, trigger nested updates in componentDidUpdate.'' @ [CHR 0x0A, CHR 0x0A] @
     ''Check the render method of %s.''"

definition callbackFormat :: string where
  "callbackFormat =
     ''render(...): Expected the last optional `callback` argument to be a '' @
     ''function. Instead received: %s.''"

definition unmountedMessage :: string where
  "unmountedMessage = ''Unable to find node on an unmounted component.''"

definition notAComponentFormat :: string where
  "notAComponentFormat = ''Argument appears to not be a ReactComponent. Keys: %s''"

definition strictInsideFormat :: string where
  "strictInsideFormat =
     ''%s is deprecated in StrictMode. '' @
     ''%s was passed an instance of %s which is inside StrictMode. '' @
     ''Instead, add a ref directly to the element you want to reference.'' @
     [CHR 0x0A] @ ''%s'' @
     [CHR 0x0A, CHR 0x0A] @ ''Learn more about using refs safely here:'' @
     [CHR 0x0A] @ ''https://fb.me/react-strict-mode-find-node''"

definition strictRendersFormat :: string where
  "strictRendersFormat =
     ''%s is deprecated in StrictMode. '' @
     ''%s was passed an instance of %s which renders StrictMode children. '' @
     ''Instead, add a ref directly to the element you want to reference.'' @
     [CHR 0x0A] @ ''%s'' @
     [CHR 0x0A, CHR 0x0A] @ ''Learn more about using refs safely here:'' @
     [CHR 0x0A] @ ''https://fb.me/react-strict-mode-find-node''"

section \<open>The reconciler's operations\<close>

subsection \<open>getContextForSubtree\<close>

text \<open>
  The message of the \<open>console.log\<close> is kept up to its first blank. When \<open>getInstance\<close>
  gives \<open>undefined\<close>, \<open>fiber.tag\<close> is a read on \<open>undefined\<close>.
\<close>

definition getContextForSubtree ::
  "env \<Rightarrow> handle \<Rightarrow> module_state \<Rightarrow> (error + jsval) \<times> module_state" where
  "getContextForSubtree env parentComponent s =
     (let s1 = emit (ConsoleLog ''getContextForSubtree'') s in
      case parentComponent of
        HUndefined \<Rightarrow> (Inr (emptyContextObject env), s1)
      | HNull \<Rightarrow> (Inr (emptyContextObject env), s1)
      | HComponent c \<Rightarrow>
          (case getInstance env c of
             None \<Rightarrow> (Inl (TypeError ''tag''), s1)
           | Some fiber \<Rightarrow>
               (let parentContext = findCurrentUnmaskedContext env fiber in
                if tag fiber = ClassComponent env \<and> isLegacyContextProvider env (type fiber)
                then (Inr (processChildContext env fiber (type fiber) parentContext), s1)
                else (Inr parentContext, s1))))"

subsection \<open>scheduleRootUpdate\<close>

definition scheduleRootUpdate ::
  "env \<Rightarrow> fiber \<Rightarrow> jsval \<Rightarrow> ExpirationTime \<Rightarrow> jsval \<Rightarrow> module_state
     \<Rightarrow> ExpirationTime \<times> module_state" where
  "scheduleRootUpdate env cur element expTime cb s =
     (let s1 = emit (ConsoleLogRoot ''scheduleRootUpdate'' cur element expTime) s;
          s2 = (if DEV env \<and> ReactCurrentFiberPhase env = Some ''render'' \<and>
                   ReactCurrentFiberCurrent env \<noteq> None \<and> \<not> didWarnAboutNestedUpdates s1
                then warningWithoutStack env False nestedUpdatesFormat
                       [JStr (or_default
                          (getComponentName env (type (the (ReactCurrentFiberCurrent env))))
                          ''Unknown'')]
                       (s1\<lparr>didWarnAboutNestedUpdates := True\<rparr>)
                else s1);
          s3 = emit (CreateUpdate expTime) s2;
          upd = createUpdate env expTime;
          upd1 = upd\<lparr>payload := Some [(''element'', element)]\<rparr>;
          cb1 = (if cb = JUndefined then JNull else cb);
          s4 = (if cb1 \<noteq> JNull
                then warningWithoutStack env (typeof cb1 = ''function'') callbackFormat [cb1] s3
                else s3);
          upd2 = (if cb1 \<noteq> JNull then upd1\<lparr>callback := cb1\<rparr> else upd1);
          s5 = emit FlushPassiveEffects s4;
          s6 = emit (EnqueueUpdate cur upd2) s5;
          s7 = emit (ScheduleWork cur expTime) s6
      in (expTime, s7))"

subsection \<open>updateContainerAtExpirationTime and updateContainer\<close>

definition updateContainerAtExpirationTime ::
  "env \<Rightarrow> jsval \<Rightarrow> FiberRoot \<Rightarrow> handle \<Rightarrow> ExpirationTime \<Rightarrow> jsval \<Rightarrow> module_state
     \<Rightarrow> (error + ExpirationTime) \<times> FiberRoot \<times> module_state" where
  "updateContainerAtExpirationTime env element container parentComponent expTime cb s =
     (let cur = current container;
          s1 = (if DEV env \<and> debugTool env
                then (if alternate cur = None then emit (OnMountContainer container) s
                      else if element = JNull then emit (OnUnmountContainer container) s
                      else emit (OnUpdateContainer container) s)
                else s)
      in case getContextForSubtree env parentComponent s1 of
           (Inl e, s2) \<Rightarrow> (Inl e, container, s2)
         | (Inr ctx, s2) \<Rightarrow>
             (let container1 = (if context' container = JNull
                                then container\<lparr>context' := ctx\<rparr>
                                else container\<lparr>pendingContext := ctx\<rparr>);
                  r = scheduleRootUpdate env cur element expTime cb s2
              in (Inr (fst r), container1, snd r)))"

definition updateContainer ::
  "env \<Rightarrow> jsval \<Rightarrow> FiberRoot \<Rightarrow> handle \<Rightarrow> jsval \<Rightarrow> module_state
     \<Rightarrow> (error + ExpirationTime) \<times> FiberRoot \<times> module_state" where
  "updateContainer env element container parentComponent cb s =
     (let cur = current container;
          s1 = emit RequestCurrentTime s;
          currentTime = requestCurrentTime env;
          s2 = emit (ComputeExpirationForFiber currentTime cur) s1;
          expTime = computeExpirationForFiber env currentTime cur
      in updateContainerAtExpirationTime env element container parentComponent expTime cb s2)"

subsection \<open>findHostInstance and findHostInstanceWithWarning\<close>

definition findHostInstance :: "env \<Rightarrow> component \<Rightarrow> error + jsval" where
  "findHostInstance env c =
     (case getInstance env c of
        None \<Rightarrow>
          (if typeof (render c) = ''function''
           then Inl (InvariantViolation unmountedMessage [])
           else Inl (InvariantViolation notAComponentFormat [keys c]))
      | Some fiber \<Rightarrow>
          (case findCurrentHostFiber env fiber of
             None \<Rightarrow> Inr JNull
           | Some hostFiber \<Rightarrow> Inr (stateNode hostFiber)))"

definition findHostInstanceWithWarning ::
  "env \<Rightarrow> component \<Rightarrow> string \<Rightarrow> module_state \<Rightarrow> (error + jsval) \<times> module_state" where
  "findHostInstanceWithWarning env c methodName s =
     (if DEV env then
        (case getInstance env c of
           None \<Rightarrow>
             (if typeof (render c) = ''function''
              then (Inl (InvariantViolation unmountedMessage []), s)
              else (Inl (InvariantViolation notAComponentFormat [keys c]), s))
         | Some fiber \<Rightarrow>
             (case findCurrentHostFiber env fiber of
                None \<Rightarrow> (Inr JNull, s)
              | Some hostFiber \<Rightarrow>
                  (let s1 =
                     (if mode hostFiber AND StrictMode env \<noteq> 0 then
                        (let componentName =
                               or_default (getComponentName env (type fiber)) ''Component'' in
                         if \<not> didWarnLookup s componentName then
                           (let s0 = s\<lparr>didWarnAboutFindNodeInStrictMode :=
                                          insert componentName
                                            (didWarnAboutFindNodeInStrictMode s)\<rparr>;
                                args = [JStr methodName, JStr methodName, JStr componentName,
                                        JStr (getStackByFiberInDevAndProd env hostFiber)] in
                            if mode fiber AND StrictMode env \<noteq> 0
                            then warningWithoutStack env False strictInsideFormat args s0
                            else warningWithoutStack env False strictRendersFormat args s0)
                         else s)
                      else s)
                   in (Inr (stateNode hostFiber), s1))))
      else (findHostInstance env c, s))"

subsection \<open>getPublicRootInstance, findHostInstanceWithNoPortals, injectIntoDevTools\<close>

definition getPublicRootInstance :: "env \<Rightarrow> FiberRoot \<Rightarrow> jsval" where
  "getPublicRootInstance env container =
     (let containerFiber = current container in
      case child containerFiber of
        None \<Rightarrow> JNull
      | Some c \<Rightarrow>
          if tag c = HostComponent env then getPublicInstance env (stateNode c)
          else stateNode c)"

definition findHostInstanceWithNoPortals :: "env \<Rightarrow> fiber \<Rightarrow> jsval" where
  "findHostInstanceWithNoPortals env fiber =
     (case findCurrentHostFiberWithNoPortals env fiber of
        None \<Rightarrow> JNull
      | Some hostFiber \<Rightarrow> stateNode hostFiber)"

text \<open>The object that \<open>injectIntoDevTools\<close> builds and registers.\<close>

definition devToolsInternals :: "env \<Rightarrow> DevToolsConfig \<Rightarrow> internals" where
  "devToolsInternals env cfg =
     \<lparr>devToolsConfig = cfg,
      findHostInstanceByFiber =
        (\<lambda>fiber. case findCurrentHostFiber env fiber of
                    None \<Rightarrow> JNull
                  | Some hostFiber \<Rightarrow> stateNode hostFiber),
      internalsFindFiberByHostInstance =
        (\<lambda>instance. case findFiberByHostInstance cfg of
                       None \<Rightarrow> None
                     | Some f \<Rightarrow> Some (f instance))\<rparr>"

definition injectIntoDevTools :: "env \<Rightarrow> DevToolsConfig \<Rightarrow> bool" where
  "injectIntoDevTools env cfg = injectInternals env (devToolsInternals env cfg)"

section \<open>Observing a run\<close>

text \<open>The events a run added, given the states before and after it.\<close>

definition events_of :: "module_state \<Rightarrow> module_state \<Rightarrow> event list" where
  "events_of s s1 = drop (length (trace s)) (trace s1)"

text \<open>Some occurrence of \<open>a\<close> comes strictly before some occurrence of \<open>b\<close>.\<close>

fun occurs_before :: "event \<Rightarrow> event \<Rightarrow> event list \<Rightarrow> bool" where
  "occurs_before a b [] = False"
| "occurs_before a b (x # xs) = ((x = a \<and> List.member xs b) \<or> occurs_before a b xs)"

text \<open>
  Console output and warnings, as opposed to calls into the scheduler, the update queue and
  the debug tool; and the events of a run that are such calls, in order.
\<close>

fun diagnostic :: "event \<Rightarrow> bool" where
  "diagnostic (ConsoleLog l) = True"
| "diagnostic (ConsoleLogRoot l f el t) = True"
| "diagnostic (Warning f args) = True"
| "diagnostic ev = False"

definition collaborator_calls :: "event list \<Rightarrow> event list" where
  "collaborator_calls evs = filter (\<lambda>ev. \<not> diagnostic ev) evs"

text \<open>The update records handed to \<open>enqueueUpdate\<close>, in order.\<close>

fun enqueued_updates :: "event list \<Rightarrow> update list" where
  "enqueued_updates [] = []"
| "enqueued_updates (EnqueueUpdate f u # evs) = u # enqueued_updates evs"
| "enqueued_updates (ev # evs) = enqueued_updates evs"

text \<open>
  The strict-mode deprecation warnings about the component name \<open>name\<close>: either of the
  two formats, whose third argument is the name.
\<close>

fun strictModeWarningFor :: "string \<Rightarrow> event \<Rightarrow> bool" where
  "strictModeWarningFor name (Warning format args) =
     ((format = strictInsideFormat \<or> format = strictRendersFormat) \<and>
      length args = 4 \<and> args ! 2 = JStr name)"
| "strictModeWarningFor name ev = False"

definition strictModeWarningCount :: "string \<Rightarrow> event list \<Rightarrow> nat" where
  "strictModeWarningCount name evs = length (filter (strictModeWarningFor name) evs)"

text \<open>
  A sequence of calls of \<open>findHostInstanceWithWarning\<close>, each with the bindings in force
  when it is made; the module state is carried from one call to the next, whatever the
  call returned or threw.
\<close>

fun findHostInstanceWithWarning_calls ::
  "(env \<times> component \<times> string) list \<Rightarrow> module_state \<Rightarrow> module_state" where
  "findHostInstanceWithWarning_calls [] s = s"
| "findHostInstanceWithWarning_calls ((env, c, methodName) # calls) s =
     findHostInstanceWithWarning_calls calls
       (snd (findHostInstanceWithWarning env c methodName s))"

section \<open>Host-kind nodes\<close>

text \<open>
  Modelled from the spec: its glossary calls a work node host-kind when its backing value
  is a concrete renderable unit of the target environment, as opposed to a composite
  component. Those are the host components and the host text nodes. The tag of host text
  nodes is a constant of \<open>ReactWorkTags\<close> that this file does not import, so it is a
  parameter here.
\<close>

definition hostKind :: "env \<Rightarrow> nat \<Rightarrow> fiber \<Rightarrow> bool" where
  "hostKind env hostText f = (tag f = HostComponent env \<or> tag f = hostText)"

section \<open>A concrete tree\<close>

text \<open>
  A root whose child is a class component in strict mode rendering one host node, a class
  component that rendered nothing, four handles (mounted, unmounted with a \<open>render\<close>
  method, foreign, mounted with nothing rendered), and bindings for them.
\<close>

definition demo_hostFiber :: fiber where
  "demo_hostFiber = Fiber 5 (JStr ''div'') (JObject 10) None 2 None"

definition demo_classFiber :: fiber where
  "demo_classFiber = Fiber 1 (JFunction 1) (JObject 20) (Some demo_hostFiber) 2 None"

definition demo_emptyFiber :: fiber where
  "demo_emptyFiber = Fiber 1 (JFunction 3) (JObject 21) None 0 None"

text \<open>A host text node, and a root that rendered a bare string.\<close>

definition demo_textFiber :: fiber where
  "demo_textFiber = Fiber 6 JNull (JObject 12) None 0 None"

definition demo_textRoot :: FiberRoot where
  "demo_textRoot =
     \<lparr>current = Fiber 3 JNull (JObject 31) (Some demo_textFiber) 0 None,
      context' = JNull, pendingContext = JNull, containerInfo = JObject 41\<rparr>"

definition demo_rootFiber :: fiber where
  "demo_rootFiber = Fiber 3 JNull (JObject 30) (Some demo_classFiber) 0 None"

definition demo_root :: FiberRoot where
  "demo_root =
     \<lparr>current = demo_rootFiber, context' = JNull, pendingContext = JNull,
      containerInfo = JObject 40\<rparr>"

definition demo_mounted :: component where
  "demo_mounted = \<lparr>ident = 1, render = JFunction 2, keys = [''props'', ''state'']\<rparr>"

definition demo_unmounted :: component where
  "demo_unmounted = \<lparr>ident = 2, render = JFunction 2, keys = [''props'', ''state'']\<rparr>"

definition demo_foreign :: component where
  "demo_foreign = \<lparr>ident = 3, render = JUndefined, keys = [''a'', ''b'']\<rparr>"

definition demo_renderless :: component where
  "demo_renderless = \<lparr>ident = 4, render = JFunction 4, keys = [''props'', ''state'']\<rparr>"

definition demo_createUpdate :: "ExpirationTime \<Rightarrow> update" where
  "demo_createUpdate t = \<lparr>expirationTime = t, payload = None, callback = JNull\<rparr>"

definition demo_env :: env where
  "demo_env =
     \<lparr>DEV = True,
      emptyContextObject = JObject 0,
      HostComponent = 5,
      ClassComponent = 1,
      StrictMode = 2,
      debugTool = False,
      ReactCurrentFiberPhase = None,
      ReactCurrentFiberCurrent = None,
      getInstance = (\<lambda>c. if ident c = 1 then Some demo_classFiber
                        else if ident c = 4 then Some demo_emptyFiber else None),
      findCurrentHostFiber = (\<lambda>f. if tag f = 5 then Some f else child f),
      findCurrentHostFiberWithNoPortals = (\<lambda>f. if tag f = 5 then Some f else child f),
      findCurrentUnmaskedContext = (\<lambda>f. JObject 50),
      isLegacyContextProvider = (\<lambda>t. False),
      processChildContext = (\<lambda>f t ctx. ctx),
      getComponentName = (\<lambda>t. if t = JFunction 1 then Some ''Widget'' else None),
      getStackByFiberInDevAndProd = (\<lambda>f. ''in div''),
      getPublicInstance = (\<lambda>i. i),
      createUpdate = demo_createUpdate,
      requestCurrentTime = 7,
      computeExpirationForFiber = (\<lambda>t f. t),
      injectInternals = (\<lambda>i. True)\<rparr>"

definition demo_config :: DevToolsConfig where
  "demo_config =
     \<lparr>bundleType = 1, version = ''16.6.1'', rendererPackageName = ''react-dom'',
      findFiberByHostInstance = Some (\<lambda>i. demo_hostFiber),
      getInspectorDataForViewTag = None\<rparr>"

section \<open>Auxiliary facts\<close>

lemmas demo_defs =
  demo_env_def demo_root_def demo_rootFiber_def demo_classFiber_def demo_hostFiber_def
  demo_emptyFiber_def demo_mounted_def demo_unmounted_def demo_foreign_def
  demo_renderless_def demo_createUpdate_def demo_config_def demo_textFiber_def
  demo_textRoot_def
  initial_state_def

lemma trace_emit: "trace (emit ev s) = trace s @ [ev]"
  by (simp add: emit_def)

lemma emit_didWarn:
  "didWarnAboutNestedUpdates (emit ev s) = didWarnAboutNestedUpdates s"
  "didWarnAboutFindNodeInStrictMode (emit ev s) = didWarnAboutFindNodeInStrictMode s"
  by (simp_all add: emit_def)

lemma trace_warningWithoutStack:
  "trace (warningWithoutStack env c f a s) =
     trace s @ (if DEV env \<and> \<not> c then [Warning f a] else [])"
  by (simp add: warningWithoutStack_def trace_emit)

lemma events_of_append: "trace s1 = trace s @ evs \<Longrightarrow> events_of s s1 = evs"
  by (simp add: events_of_def)

text \<open>The result of context resolution does not depend on the module state.\<close>

lemma getContextForSubtree_fst:
  "fst (getContextForSubtree env p s) = fst (getContextForSubtree env p s1)"
  by (simp add: getContextForSubtree_def Let_def split: handle.splits option.splits)

text \<open>Exactly the events that one run of \<open>scheduleRootUpdate\<close> adds, in order.\<close>

lemma scheduleRootUpdate_events:
  "events_of s (snd (scheduleRootUpdate env cur element expTime cb s)) =
     ConsoleLogRoot ''scheduleRootUpdate'' cur element expTime #
     (if DEV env \<and> ReactCurrentFiberPhase env = Some ''render'' \<and>
         ReactCurrentFiberCurrent env \<noteq> None \<and> \<not> didWarnAboutNestedUpdates s
      then [Warning nestedUpdatesFormat
              [JStr (or_default
                 (getComponentName env (type (the (ReactCurrentFiberCurrent env))))
                 ''Unknown'')]]
      else []) @
     [CreateUpdate expTime] @
     (if cb \<noteq> JUndefined \<and> cb \<noteq> JNull \<and> DEV env \<and> typeof cb \<noteq> ''function''
      then [Warning callbackFormat [cb]] else []) @
     [FlushPassiveEffects,
      EnqueueUpdate cur
        (if cb \<noteq> JUndefined \<and> cb \<noteq> JNull
         then createUpdate env expTime
                \<lparr>payload := Some [(''element'', element)], callback := cb\<rparr>
         else createUpdate env expTime\<lparr>payload := Some [(''element'', element)]\<rparr>),
      ScheduleWork cur expTime]"
  by (rule events_of_append)
     (simp add: scheduleRootUpdate_def Let_def trace_emit emit_didWarn
        trace_warningWithoutStack)

lemma scheduleRootUpdate_fst:
  "fst (scheduleRootUpdate env cur element expTime cb s) = expTime"
  by (simp add: scheduleRootUpdate_def Let_def)

text \<open>The root after \<open>updateContainerAtExpirationTime\<close>, once the context has resolved.\<close>

lemma updateContainerAtExpirationTime_root:
  assumes "fst (getContextForSubtree env parentComponent s0) = Inr ctx"
  shows "fst (snd (updateContainerAtExpirationTime env element container parentComponent
                     expTime cb s)) =
         (if context' container = JNull then container\<lparr>context' := ctx\<rparr>
          else container\<lparr>pendingContext := ctx\<rparr>)"
proof -
  define s1 where "s1 =
    (if DEV env \<and> debugTool env
     then (if alternate (current container) = None then emit (OnMountContainer container) s
           else if element = JNull then emit (OnUnmountContainer container) s
           else emit (OnUpdateContainer container) s)
     else s)"
  have "fst (getContextForSubtree env parentComponent s1) = Inr ctx"
    using assms getContextForSubtree_fst [of env parentComponent s1 s0] by simp
  then obtain s2 where "getContextForSubtree env parentComponent s1 = (Inr ctx, s2)"
    by (cases "getContextForSubtree env parentComponent s1") simp
  then show ?thesis
    by (simp add: updateContainerAtExpirationTime_def Let_def s1_def [symmetric])
qed

lemma updateContainer_root:
  assumes "fst (getContextForSubtree env parentComponent s0) = Inr ctx"
  shows "fst (snd (updateContainer env element container parentComponent cb s)) =
         (if context' container = JNull then container\<lparr>context' := ctx\<rparr>
          else container\<lparr>pendingContext := ctx\<rparr>)"
  unfolding updateContainer_def Let_def
  by (rule updateContainerAtExpirationTime_root [OF assms])

text \<open>One call keeps the count of strict-mode warnings below the set of warned names.\<close>

lemma findHostInstanceWithWarning_fst:
  "fst (findHostInstanceWithWarning env c methodName s) = findHostInstance env c"
  by (simp add: findHostInstanceWithWarning_def findHostInstance_def Let_def
        split: option.splits)

lemma strictModeWarningCount_snoc:
  "strictModeWarningCount n (evs @ [ev]) =
     strictModeWarningCount n evs + (if strictModeWarningFor n ev then 1 else 0)"
  by (simp add: strictModeWarningCount_def)

lemma didWarnLookup_member:
  "name \<in> didWarnAboutFindNodeInStrictMode s \<Longrightarrow> didWarnLookup s name"
  by (simp add: didWarnLookup_def)

lemma findHostInstanceWithWarning_step:
  assumes "\<And>n. strictModeWarningCount n (trace s) \<le>
             (if n \<in> didWarnAboutFindNodeInStrictMode s then 1 else 0)"
  shows "strictModeWarningCount n
           (trace (snd (findHostInstanceWithWarning env c methodName s))) \<le>
         (if n \<in> didWarnAboutFindNodeInStrictMode
                   (snd (findHostInstanceWithWarning env c methodName s)) then 1 else 0)"
proof -
  have old: "strictModeWarningCount n (trace s) \<le>
               (if n \<in> didWarnAboutFindNodeInStrictMode s then 1 else 0)"
    by (rule assms)
  have fresh: "strictModeWarningCount k (trace s) = 0" if "\<not> didWarnLookup s k" for k
    using assms [of k] that didWarnLookup_member [of k s] by (auto split: if_splits)
  show ?thesis
    using old fresh
    by (auto simp add: findHostInstanceWithWarning_def Let_def warningWithoutStack_def
          trace_emit emit_didWarn strictModeWarningCount_snoc
          split: option.splits if_splits)
qed

lemma findHostInstanceWithWarning_calls_inv:
  assumes "\<And>n. strictModeWarningCount n (trace s) \<le>
             (if n \<in> didWarnAboutFindNodeInStrictMode s then 1 else 0)"
  shows "strictModeWarningCount n (trace (findHostInstanceWithWarning_calls calls s)) \<le>
         (if n \<in> didWarnAboutFindNodeInStrictMode
                   (findHostInstanceWithWarning_calls calls s) then 1 else 0)"
  using assms
proof (induction calls arbitrary: s n)
  case Nil
  then show ?case by simp
next
  case (Cons call calls)
  obtain env c methodName where call: "call = (env, c, methodName)"
    by (cases call) auto
  show ?case
    unfolding call findHostInstanceWithWarning_calls.simps
    by (rule Cons.IH) (rule findHostInstanceWithWarning_step, rule Cons.prems)
qed

text \<open>
  Dropping the diagnostics from a run keeps the order of its calls, so the order of two
  calls can be read off the list of calls.
\<close>

lemma member_collaborator_calls:
  "List.member (collaborator_calls evs) b = (List.member evs b \<and> \<not> diagnostic b)"
  by (auto simp add: collaborator_calls_def)

lemma occurs_before_collaborator_calls:
  assumes "\<not> diagnostic a" and "\<not> diagnostic b"
  shows "occurs_before a b (collaborator_calls evs) = occurs_before a b evs"
proof (induction evs)
  case Nil
  show ?case by (simp add: collaborator_calls_def)
next
  case (Cons x xs)
  have tl: "occurs_before a b (filter (\<lambda>ev. \<not> diagnostic ev) xs) = occurs_before a b xs"
    using Cons.IH by (simp add: collaborator_calls_def)
  have mem: "List.member (filter (\<lambda>ev. \<not> diagnostic ev) xs) b = List.member xs b"
    using member_collaborator_calls [of xs b] assms(2) by (simp add: collaborator_calls_def)
  show ?case
  proof (cases "diagnostic x")
    case True
    then have "x \<noteq> a" using assms(1) by auto
    with True tl show ?thesis by (simp add: collaborator_calls_def)
  next
    case False
    with tl mem show ?thesis by (simp add: collaborator_calls_def)
  qed
qed

lemma scheduleRootUpdate_calls:
  "\<exists>upd. collaborator_calls
           (events_of s (snd (scheduleRootUpdate env cur element expTime cb s))) =
         [CreateUpdate expTime, FlushPassiveEffects, EnqueueUpdate cur upd,
          ScheduleWork cur expTime]"
  by (simp add: scheduleRootUpdate_events collaborator_calls_def)

section \<open>Staging the context on the root\<close>

text \<open>
  Claim C1. Whenever the context for the call resolves to \<open>ctx\<close>, both update entry points
  (\<open>updateContainerAtExpirationTime\<close> and \<open>updateContainer\<close>) store it in the root's
  \<open>context\<close> field when that field is \<open>null\<close>, leaving \<open>pendingContext\<close> as it was; and
  store it in \<open>pendingContext\<close> when \<open>context\<close> is already set, leaving \<open>context\<close>
  unchanged.
\<close>

theorem updateContainer_stages_context:
  assumes "fst (getContextForSubtree env parentComponent s) = Inr ctx"
  shows "(let r1 = fst (snd (updateContainerAtExpirationTime env element container
                               parentComponent expTime cb s));
              r2 = fst (snd (updateContainer env element container parentComponent cb s))
          in (context' container = JNull \<longrightarrow>
                context' r1 = ctx \<and> pendingContext r1 = pendingContext container \<and>
                context' r2 = ctx \<and> pendingContext r2 = pendingContext container) \<and>
             (context' container \<noteq> JNull \<longrightarrow>
                pendingContext r1 = ctx \<and> context' r1 = context' container \<and>
                pendingContext r2 = ctx \<and> context' r2 = context' container))"
  by (simp add: Let_def updateContainerAtExpirationTime_root [OF assms]
        updateContainer_root [OF assms])

text \<open>
  The theorem at a root that has never committed, with no parent, and at a root whose
  context is set, with a mounted parent.
\<close>

theorem updateContainer_stages_context_witness:
  "fst (getContextForSubtree demo_env HUndefined initial_state) = Inr (JObject 0) \<and>
   context' demo_root = JNull \<and>
   context' (fst (snd (updateContainerAtExpirationTime demo_env (JStr ''T1'') demo_root
                         HUndefined 7 JUndefined initial_state))) = JObject 0 \<and>
   fst (getContextForSubtree demo_env (HComponent demo_mounted) initial_state) =
     Inr (JObject 50) \<and>
   context' (demo_root\<lparr>context' := JObject 0\<rparr>) \<noteq> JNull \<and>
   pendingContext (fst (snd (updateContainer demo_env (JStr ''T1'')
                               (demo_root\<lparr>context' := JObject 0\<rparr>)
                               (HComponent demo_mounted) JUndefined initial_state))) =
     JObject 50 \<and>
   context' (fst (snd (updateContainer demo_env (JStr ''T1'')
                         (demo_root\<lparr>context' := JObject 0\<rparr>)
                         (HComponent demo_mounted) JUndefined initial_state))) = JObject 0"
proof -
  have h1: "fst (getContextForSubtree demo_env HUndefined initial_state) = Inr (JObject 0)"
    by (simp add: getContextForSubtree_def demo_defs)
  have h2: "fst (getContextForSubtree demo_env (HComponent demo_mounted) initial_state) =
              Inr (JObject 50)"
    by (simp add: getContextForSubtree_def demo_defs)
  have r1: "context' demo_root = JNull"
    by (simp add: demo_root_def)
  have r2: "context' (demo_root\<lparr>context' := JObject 0\<rparr>) \<noteq> JNull"
    by simp
  show ?thesis
    using h1 h2 r1 r2
      updateContainer_stages_context [OF h1, where element = "JStr ''T1''"
        and container = demo_root and expTime = 7 and cb = JUndefined]
      updateContainer_stages_context [OF h2, where element = "JStr ''T1''"
        and container = "demo_root\<lparr>context' := JObject 0\<rparr>" and expTime = 7
        and cb = JUndefined]
    by (simp add: Let_def)
qed

section \<open>The order of events in scheduleRootUpdate\<close>

text \<open>
  Claim C2, as amended. In every run of \<open>scheduleRootUpdate\<close> the update record is created
  first; the flush of passive effects comes after \<open>createUpdate\<close> and before
  \<open>enqueueUpdate\<close> and \<open>scheduleWork\<close>. The calls the run makes into the scheduler
  and the update queue are exactly these four, once each and in this order:
  \<open>createUpdate\<close>, \<open>flushPassiveEffects\<close>, \<open>enqueueUpdate\<close>, \<open>scheduleWork\<close>. So no
  \<open>createUpdate\<close> follows the flush, no \<open>enqueueUpdate\<close> or \<open>scheduleWork\<close> comes
  before it, and nothing is enqueued or scheduled before the record is created.
\<close>

theorem scheduleRootUpdate_flush_order:
  "(let evs = events_of s (snd (scheduleRootUpdate env cur element expTime cb s))
    in (\<exists>upd. collaborator_calls evs =
                 [CreateUpdate expTime, FlushPassiveEffects, EnqueueUpdate cur upd,
                  ScheduleWork cur expTime]) \<and>
       occurs_before (CreateUpdate expTime) FlushPassiveEffects evs \<and>
       \<not> occurs_before FlushPassiveEffects (CreateUpdate t) evs \<and>
       (\<exists>upd. occurs_before FlushPassiveEffects (EnqueueUpdate cur upd) evs) \<and>
       occurs_before FlushPassiveEffects (ScheduleWork cur expTime) evs \<and>
       \<not> occurs_before (EnqueueUpdate f u) FlushPassiveEffects evs \<and>
       \<not> occurs_before (ScheduleWork f t) FlushPassiveEffects evs \<and>
       \<not> occurs_before (EnqueueUpdate f u) (CreateUpdate t) evs \<and>
       \<not> occurs_before (ScheduleWork f t) (CreateUpdate t) evs \<and>
       \<not> occurs_before (ScheduleWork f t) (EnqueueUpdate f u) evs)"
proof -
  define evs where "evs = events_of s (snd (scheduleRootUpdate env cur element expTime cb s))"
  obtain upd where calls: "collaborator_calls evs =
      [CreateUpdate expTime, FlushPassiveEffects, EnqueueUpdate cur upd,
       ScheduleWork cur expTime]"
    unfolding evs_def using scheduleRootUpdate_calls by blast
  have via: "occurs_before a b evs =
               occurs_before a b [CreateUpdate expTime, FlushPassiveEffects,
                                  EnqueueUpdate cur upd, ScheduleWork cur expTime]"
    if "\<not> diagnostic a" and "\<not> diagnostic b" for a b
    using occurs_before_collaborator_calls [OF that, of evs] calls by simp
  have c1: "occurs_before (CreateUpdate expTime) FlushPassiveEffects evs"
    by (simp add: via)
  have c2: "\<not> occurs_before FlushPassiveEffects (CreateUpdate t) evs"
    by (simp add: via)
  have c3: "occurs_before FlushPassiveEffects (EnqueueUpdate cur upd) evs"
    by (simp add: via)
  have c4: "occurs_before FlushPassiveEffects (ScheduleWork cur expTime) evs"
    by (simp add: via)
  have c5: "\<not> occurs_before (EnqueueUpdate f u) FlushPassiveEffects evs"
    by (simp add: via)
  have c6: "\<not> occurs_before (ScheduleWork f t) FlushPassiveEffects evs"
    by (simp add: via)
  have c7: "\<not> occurs_before (EnqueueUpdate f u) (CreateUpdate t) evs"
    by (simp add: via)
  have c8: "\<not> occurs_before (ScheduleWork f t) (CreateUpdate t) evs"
    by (simp add: via)
  have c9: "\<not> occurs_before (ScheduleWork f t) (EnqueueUpdate f u) evs"
    by (simp add: via)
  show ?thesis
    unfolding Let_def evs_def [symmetric]
    using calls c1 c2 c3 c4 c5 c6 c7 c8 c9 by blast
qed

text \<open>A plain first render: its four calls, and the flush between create and enqueue.\<close>

theorem scheduleRootUpdate_flush_order_witness:
  "collaborator_calls
     (events_of initial_state
        (snd (scheduleRootUpdate demo_env demo_rootFiber (JStr ''T1'') 7 JUndefined
                initial_state))) =
     [CreateUpdate 7,
      FlushPassiveEffects,
      EnqueueUpdate demo_rootFiber
        \<lparr>expirationTime = 7, payload = Some [(''element'', JStr ''T1'')], callback = JNull\<rparr>,
      ScheduleWork demo_rootFiber 7] \<and>
   occurs_before (CreateUpdate 7) FlushPassiveEffects
     (events_of initial_state
        (snd (scheduleRootUpdate demo_env demo_rootFiber (JStr ''T1'') 7 JUndefined
                initial_state))) \<and>
   occurs_before FlushPassiveEffects (ScheduleWork demo_rootFiber 7)
     (events_of initial_state
        (snd (scheduleRootUpdate demo_env demo_rootFiber (JStr ''T1'') 7 JUndefined
                initial_state)))"
proof -
  have calls: "collaborator_calls
     (events_of initial_state
        (snd (scheduleRootUpdate demo_env demo_rootFiber (JStr ''T1'') 7 JUndefined
                initial_state))) =
     [CreateUpdate 7,
      FlushPassiveEffects,
      EnqueueUpdate demo_rootFiber
        \<lparr>expirationTime = 7, payload = Some [(''element'', JStr ''T1'')], callback = JNull\<rparr>,
      ScheduleWork demo_rootFiber 7]"
    by (simp add: scheduleRootUpdate_events collaborator_calls_def demo_env_def
          demo_createUpdate_def)
  show ?thesis
    using calls
      scheduleRootUpdate_flush_order
        [where s = initial_state and env = demo_env and cur = demo_rootFiber
           and element = "JStr ''T1''" and expTime = 7 and cb = JUndefined and t = 7
           and f = demo_rootFiber and u = "demo_createUpdate 7"]
    by (simp add: Let_def)
qed

text \<open>
  The claim as it is written, that the flush precedes the creation of the update record,
  fails on a plain first render: the events are the log line, \<open>createUpdate\<close>, the flush,
  \<open>enqueueUpdate\<close>, \<open>scheduleWork\<close>.
\<close>

theorem scheduleRootUpdate_flush_not_before_create:
  "events_of initial_state
     (snd (scheduleRootUpdate demo_env demo_rootFiber (JStr ''T1'') 7 JUndefined
             initial_state)) =
     [ConsoleLogRoot ''scheduleRootUpdate'' demo_rootFiber (JStr ''T1'') 7,
      CreateUpdate 7,
      FlushPassiveEffects,
      EnqueueUpdate demo_rootFiber
        \<lparr>expirationTime = 7, payload = Some [(''element'', JStr ''T1'')], callback = JNull\<rparr>,
      ScheduleWork demo_rootFiber 7] \<and>
   \<not> occurs_before FlushPassiveEffects (CreateUpdate 7)
     (events_of initial_state
        (snd (scheduleRootUpdate demo_env demo_rootFiber (JStr ''T1'') 7 JUndefined
                initial_state)))"
  by (simp add: scheduleRootUpdate_events demo_env_def demo_createUpdate_def)

section \<open>A callback that is not a function\<close>

text \<open>
  Claim C3, as amended. When the callback argument is neither \<open>undefined\<close> nor \<open>null\<close> and
  is not a function, \<open>scheduleRootUpdate\<close> still returns the expiration time, it warns
  exactly in a development build, and the update record it enqueues carries that very
  callback value in its \<open>callback\<close> field.
\<close>

theorem scheduleRootUpdate_invalid_callback:
  assumes "cb \<noteq> JUndefined" and "cb \<noteq> JNull" and "typeof cb \<noteq> ''function''"
  shows "fst (scheduleRootUpdate env cur element expTime cb s) = expTime \<and>
         map callback (enqueued_updates
           (events_of s (snd (scheduleRootUpdate env cur element expTime cb s)))) = [cb] \<and>
         List.member (events_of s (snd (scheduleRootUpdate env cur element expTime cb s)))
           (Warning callbackFormat [cb]) = DEV env"
  using assms
  by (simp add: scheduleRootUpdate_events scheduleRootUpdate_fst
        nestedUpdatesFormat_def callbackFormat_def)

theorem scheduleRootUpdate_invalid_callback_witness:
  "JNum 42 \<noteq> JUndefined \<and> JNum 42 \<noteq> JNull \<and> typeof (JNum 42) \<noteq> ''function'' \<and>
   fst (scheduleRootUpdate demo_env demo_rootFiber (JStr ''T1'') 7 (JNum 42)
          initial_state) = 7 \<and>
   List.member
     (events_of initial_state
        (snd (scheduleRootUpdate demo_env demo_rootFiber (JStr ''T1'') 7 (JNum 42)
                initial_state)))
     (Warning callbackFormat [JNum 42])"
proof -
  have h1: "JNum 42 \<noteq> JUndefined" and h2: "JNum 42 \<noteq> JNull"
    and h3: "typeof (JNum 42) \<noteq> ''function''"
    by simp_all
  show ?thesis
    using h1 h2 h3
      scheduleRootUpdate_invalid_callback
        [OF h1 h2 h3, where env = demo_env and cur = demo_rootFiber
           and element = "JStr ''T1''" and expTime = 7 and s = initial_state]
    by (simp add: demo_env_def)
qed

text \<open>
  The claim as it is written, that the callback field stays \<open>null\<close>, fails for the
  callback \<open>42\<close>: the record is created with a \<open>null\<close> callback and enqueued with \<open>42\<close>.
\<close>

theorem scheduleRootUpdate_invalid_callback_kept:
  "typeof (JNum 42) \<noteq> ''function'' \<and>
   callback (createUpdate demo_env 7) = JNull \<and>
   map callback (enqueued_updates
     (events_of initial_state
        (snd (scheduleRootUpdate demo_env demo_rootFiber (JStr ''T1'') 7 (JNum 42)
                initial_state)))) = [JNum 42] \<and>
   JNum 42 \<noteq> JNull"
  by (simp add: scheduleRootUpdate_events demo_env_def demo_createUpdate_def)

section \<open>The payload of the update\<close>

text \<open>
  Claim C6. For every tree description, \<open>null\<close> included, \<open>scheduleRootUpdate\<close> enqueues
  exactly one update record, and its payload is the object whose only property is named
  \<open>element\<close> and holds the description.
\<close>

theorem scheduleRootUpdate_payload_element:
  "map payload (enqueued_updates
     (events_of s (snd (scheduleRootUpdate env cur element expTime cb s)))) =
   [Some [(''element'', element)]]"
  by (simp add: scheduleRootUpdate_events)

theorem scheduleRootUpdate_payload_element_witness:
  "map payload (enqueued_updates
     (events_of initial_state
        (snd (scheduleRootUpdate demo_env demo_rootFiber JNull 7 JUndefined initial_state)))) =
   [Some [(''element'', JNull)]]"
  using scheduleRootUpdate_payload_element
    [where s = initial_state and env = demo_env and cur = demo_rootFiber
       and element = JNull and expTime = 7 and cb = JUndefined]
  by simp

section \<open>Resolving a handle to its host instance\<close>

text \<open>
  Claim C4. \<open>findHostInstance\<close> throws exactly when the handle has no work node
  associated with it, and what it throws is an invariant violation: the message for an
  unmounted component when the handle's \<open>render\<close> is a function, and otherwise the
  message that lists the handle's keys; the two messages differ. When the handle resolves
  and no host fiber is found the result is \<open>null\<close>, and otherwise it is the \<open>stateNode\<close>
  of the host fiber found.
\<close>

theorem findHostInstance_cases:
  "(isl (findHostInstance env c) = (getInstance env c = None)) \<and>
   (getInstance env c = None \<and> typeof (render c) = ''function'' \<longrightarrow>
      findHostInstance env c = Inl (InvariantViolation unmountedMessage [])) \<and>
   (getInstance env c = None \<and> typeof (render c) \<noteq> ''function'' \<longrightarrow>
      findHostInstance env c = Inl (InvariantViolation notAComponentFormat [keys c])) \<and>
   (\<forall>fiber. getInstance env c = Some fiber \<and> findCurrentHostFiber env fiber = None \<longrightarrow>
      findHostInstance env c = Inr JNull) \<and>
   (\<forall>fiber hostFiber. getInstance env c = Some fiber \<and>
        findCurrentHostFiber env fiber = Some hostFiber \<longrightarrow>
      findHostInstance env c = Inr (stateNode hostFiber)) \<and>
   unmountedMessage \<noteq> notAComponentFormat"
  by (auto simp add: findHostInstance_def unmountedMessage_def notAComponentFormat_def
        split: option.splits)

text \<open>
  The four cases: an unmounted component, a foreign object, a mounted component with a host
  node below it, and a mounted component that rendered nothing.
\<close>

theorem findHostInstance_cases_witness:
  "getInstance demo_env demo_unmounted = None \<and>
   typeof (render demo_unmounted) = ''function'' \<and>
   findHostInstance demo_env demo_unmounted = Inl (InvariantViolation unmountedMessage []) \<and>
   getInstance demo_env demo_foreign = None \<and>
   typeof (render demo_foreign) \<noteq> ''function'' \<and>
   findHostInstance demo_env demo_foreign =
     Inl (InvariantViolation notAComponentFormat [[''a'', ''b'']]) \<and>
   getInstance demo_env demo_mounted = Some demo_classFiber \<and>
   findCurrentHostFiber demo_env demo_classFiber = Some demo_hostFiber \<and>
   findHostInstance demo_env demo_mounted = Inr (JObject 10) \<and>
   \<not> isl (findHostInstance demo_env demo_mounted) \<and>
   getInstance demo_env demo_renderless = Some demo_emptyFiber \<and>
   findCurrentHostFiber demo_env demo_emptyFiber = None \<and>
   findHostInstance demo_env demo_renderless = Inr JNull"
proof -
  have a: "getInstance demo_env demo_unmounted = None"
    and b: "typeof (render demo_unmounted) = ''function''"
    and c: "getInstance demo_env demo_foreign = None"
    and d: "typeof (render demo_foreign) \<noteq> ''function''"
    and e: "getInstance demo_env demo_mounted = Some demo_classFiber"
    and f: "findCurrentHostFiber demo_env demo_classFiber = Some demo_hostFiber"
    and g: "getInstance demo_env demo_renderless = Some demo_emptyFiber"
    and h: "findCurrentHostFiber demo_env demo_emptyFiber = None"
    and i: "keys demo_foreign = [''a'', ''b'']"
    and j: "stateNode demo_hostFiber = JObject 10"
    by (simp_all add: demo_defs)
  show ?thesis
    using a b c d e f g h i j
      findHostInstance_cases [where env = demo_env and c = demo_unmounted]
      findHostInstance_cases [where env = demo_env and c = demo_foreign]
      findHostInstance_cases [where env = demo_env and c = demo_mounted]
      findHostInstance_cases [where env = demo_env and c = demo_renderless]
    by simp
qed

text \<open>
  Claim C5. \<open>findHostInstanceWithWarning\<close> gives what \<open>findHostInstance\<close> gives on the
  same handle, in every build and whatever the state of the warning bookkeeping (when one
  throws, the other throws the same); and over any sequence of calls made since the module
  was loaded, at most one strict-mode deprecation warning is emitted for any one component
  name.
\<close>

theorem findHostInstanceWithWarning_refines:
  "fst (findHostInstanceWithWarning env c methodName s) = findHostInstance env c \<and>
   strictModeWarningCount name
     (trace (findHostInstanceWithWarning_calls calls initial_state)) \<le> 1"
proof
  show "fst (findHostInstanceWithWarning env c methodName s) = findHostInstance env c"
    by (rule findHostInstanceWithWarning_fst)
next
  have "strictModeWarningCount name
          (trace (findHostInstanceWithWarning_calls calls initial_state)) \<le>
        (if name \<in> didWarnAboutFindNodeInStrictMode
                     (findHostInstanceWithWarning_calls calls initial_state) then 1 else 0)"
    by (rule findHostInstanceWithWarning_calls_inv)
       (simp add: initial_state_def strictModeWarningCount_def)
  then show "strictModeWarningCount name
     (trace (findHostInstanceWithWarning_calls calls initial_state)) \<le> 1"
    by (simp split: if_splits)
qed

text \<open>
  Two calls on the same strict-mode component in a development build: both return the host
  instance, and the trace holds one warning about \<open>Widget\<close>.
\<close>

theorem findHostInstanceWithWarning_refines_witness:
  "fst (findHostInstanceWithWarning demo_env demo_mounted ''findDOMNode'' initial_state) =
     Inr (JObject 10) \<and>
   findHostInstance demo_env demo_mounted = Inr (JObject 10) \<and>
   strictModeWarningCount ''Widget''
     (trace (findHostInstanceWithWarning_calls
        [(demo_env, demo_mounted, ''findDOMNode''), (demo_env, demo_mounted, ''findNodeHandle'')]
        initial_state)) = 1"
proof -
  have a: "findHostInstance demo_env demo_mounted = Inr (JObject 10)"
    by (simp add: findHostInstance_def demo_defs)
  have b: "strictModeWarningCount ''Widget''
     (trace (findHostInstanceWithWarning_calls
        [(demo_env, demo_mounted, ''findDOMNode''), (demo_env, demo_mounted, ''findNodeHandle'')]
        initial_state)) = 1"
    by (simp add: findHostInstanceWithWarning_def Let_def warningWithoutStack_def
          strictModeWarningCount_def demo_defs or_default_def didWarnLookup_def
          objectPrototypeKeys_def emit_def strictInsideFormat_def)
  show ?thesis
    using a b
      findHostInstanceWithWarning_refines [where env = demo_env and c = demo_mounted
        and methodName = "''findDOMNode''" and s = initial_state and name = "''Widget''"
        and calls = "[(demo_env, demo_mounted, ''findDOMNode''),
                      (demo_env, demo_mounted, ''findNodeHandle'')]"]
    by simp
qed

section \<open>The public instance of a root\<close>

text \<open>
  Claim C7, as amended. \<open>getPublicRootInstance\<close> returns \<open>null\<close> when the root's current
  fiber has no child, \<open>getPublicInstance\<close> of the child's \<open>stateNode\<close> when the child's
  tag is \<open>HostComponent\<close>, and the child's \<open>stateNode\<close> itself for a child of any other
  tag. A host text child is among the latter: it is host-kind, and its \<open>stateNode\<close> is
  returned as it is.
\<close>

theorem getPublicRootInstance_cases:
  "(child (current container) = None \<longrightarrow> getPublicRootInstance env container = JNull) \<and>
   (\<forall>c. child (current container) = Some c \<and> tag c = HostComponent env \<longrightarrow>
        getPublicRootInstance env container = getPublicInstance env (stateNode c)) \<and>
   (\<forall>c. child (current container) = Some c \<and> tag c \<noteq> HostComponent env \<longrightarrow>
        getPublicRootInstance env container = stateNode c) \<and>
   (\<forall>c. child (current container) = Some c \<and> hostKind env hostText c \<and>
        tag c \<noteq> HostComponent env \<longrightarrow>
        tag c = hostText \<and> getPublicRootInstance env container = stateNode c)"
  by (auto simp add: getPublicRootInstance_def Let_def hostKind_def)

text \<open>
  An emptied root, a root over a host component (with a \<open>getPublicInstance\<close> that is not
  the identity), a root over a class component and a root over a host text node.
\<close>

theorem getPublicRootInstance_cases_witness:
  "child (current (demo_root\<lparr>current := demo_hostFiber\<rparr>)) = None \<and>
   getPublicRootInstance demo_env (demo_root\<lparr>current := demo_hostFiber\<rparr>) = JNull \<and>
   child (current (demo_root\<lparr>current := demo_classFiber\<rparr>)) = Some demo_hostFiber \<and>
   tag demo_hostFiber = HostComponent (demo_env\<lparr>getPublicInstance := (\<lambda>i. JObject 11)\<rparr>) \<and>
   getPublicRootInstance (demo_env\<lparr>getPublicInstance := (\<lambda>i. JObject 11)\<rparr>)
     (demo_root\<lparr>current := demo_classFiber\<rparr>) = JObject 11 \<and>
   child (current demo_root) = Some demo_classFiber \<and>
   tag demo_classFiber \<noteq> HostComponent demo_env \<and>
   getPublicRootInstance demo_env demo_root = JObject 20 \<and>
   child (current demo_textRoot) = Some demo_textFiber \<and>
   hostKind demo_env 6 demo_textFiber \<and>
   tag demo_textFiber \<noteq> HostComponent demo_env \<and>
   getPublicRootInstance demo_env demo_textRoot = JObject 12"
proof -
  have a: "child (current (demo_root\<lparr>current := demo_hostFiber\<rparr>)) = None"
    and b: "child (current (demo_root\<lparr>current := demo_classFiber\<rparr>)) = Some demo_hostFiber"
    and c: "tag demo_hostFiber =
              HostComponent (demo_env\<lparr>getPublicInstance := (\<lambda>i. JObject 11)\<rparr>)"
    and d: "child (current demo_root) = Some demo_classFiber"
    and e: "tag demo_classFiber \<noteq> HostComponent demo_env"
    and f: "getPublicInstance (demo_env\<lparr>getPublicInstance := (\<lambda>i. JObject 11)\<rparr>)
              (stateNode demo_hostFiber) = JObject 11"
    and g: "stateNode demo_classFiber = JObject 20"
    and h: "child (current demo_textRoot) = Some demo_textFiber"
    and i: "hostKind demo_env 6 demo_textFiber"
    and j: "tag demo_textFiber \<noteq> HostComponent demo_env"
    and k: "stateNode demo_textFiber = JObject 12"
    by (simp_all add: demo_defs hostKind_def)
  show ?thesis
    using a b c d e f g h i j k
      getPublicRootInstance_cases [where env = demo_env and hostText = 6
        and container = "demo_root\<lparr>current := demo_hostFiber\<rparr>"]
      getPublicRootInstance_cases
        [where env = "demo_env\<lparr>getPublicInstance := (\<lambda>i. JObject 11)\<rparr>"
         and container = "demo_root\<lparr>current := demo_classFiber\<rparr>" and hostText = 6]
      getPublicRootInstance_cases [where env = demo_env and container = demo_root
        and hostText = 6]
      getPublicRootInstance_cases [where env = demo_env and container = demo_textRoot
        and hostText = 6]
    by simp
qed

text \<open>
  The claim as it is written, that a host-kind child gives \<open>getPublicInstance\<close> of its
  \<open>stateNode\<close>, fails for a root that rendered a bare string, under a host configuration
  whose \<open>getPublicInstance\<close> is not the identity: the child is a host text node, the
  \<open>switch\<close> takes its \<open>default\<close> branch, and the text instance itself is returned.
\<close>

theorem getPublicRootInstance_host_text_raw:
  "child (current demo_textRoot) = Some demo_textFiber \<and>
   hostKind (demo_env\<lparr>getPublicInstance := (\<lambda>i. JObject 11)\<rparr>) 6 demo_textFiber \<and>
   getPublicInstance (demo_env\<lparr>getPublicInstance := (\<lambda>i. JObject 11)\<rparr>)
     (stateNode demo_textFiber) = JObject 11 \<and>
   getPublicRootInstance (demo_env\<lparr>getPublicInstance := (\<lambda>i. JObject 11)\<rparr>)
     demo_textRoot = JObject 12 \<and>
   getPublicRootInstance (demo_env\<lparr>getPublicInstance := (\<lambda>i. JObject 11)\<rparr>)
     demo_textRoot \<noteq>
   getPublicInstance (demo_env\<lparr>getPublicInstance := (\<lambda>i. JObject 11)\<rparr>)
     (stateNode demo_textFiber)"
  by (simp add: getPublicRootInstance_def hostKind_def demo_defs)

section \<open>The context of a subtree without a parent\<close>

text \<open>
  Claim C8. With an absent parent handle (\<open>null\<close> or \<open>undefined\<close>)
  \<open>getContextForSubtree\<close> returns \<open>emptyContextObject\<close>, and any two such calls, in
  whatever states, return the same object.
\<close>

theorem getContextForSubtree_absent_parent:
  assumes "absent p" and "absent q"
  shows "fst (getContextForSubtree env p s) = Inr (emptyContextObject env) \<and>
         fst (getContextForSubtree env p s) = fst (getContextForSubtree env q s1)"
  using assms by (cases p; cases q) (simp_all add: getContextForSubtree_def Let_def)

theorem getContextForSubtree_absent_parent_witness:
  "absent HUndefined \<and> absent HNull \<and>
   fst (getContextForSubtree demo_env HUndefined initial_state) = Inr (JObject 0) \<and>
   fst (getContextForSubtree demo_env HUndefined initial_state) =
     fst (getContextForSubtree demo_env HNull (emit FlushPassiveEffects initial_state))"
proof -
  have a: "absent HUndefined" and b: "absent HNull"
    by simp_all
  have c: "emptyContextObject demo_env = JObject 0"
    by (simp add: demo_env_def)
  show ?thesis
    using a b c
      getContextForSubtree_absent_parent [OF a b, where env = demo_env
        and s = initial_state and ?s1.0 = "emit FlushPassiveEffects initial_state"]
    by auto
qed

section \<open>The lookups registered with the inspection tool\<close>

text \<open>
  Claim C9. In the object that \<open>injectIntoDevTools\<close> registers, the reverse lookup gives
  what the caller's \<open>findFiberByHostInstance\<close> gives when the configuration has one and
  \<open>null\<close> for every instance when it has none; the forward lookup gives \<open>null\<close> when no
  host fiber is found and the \<open>stateNode\<close> of the host fiber otherwise; and
  \<open>injectIntoDevTools\<close> returns what \<open>injectInternals\<close> returns for that object.
\<close>

theorem injectIntoDevTools_lookups:
  "(\<forall>f. findFiberByHostInstance cfg = Some f \<longrightarrow>
        internalsFindFiberByHostInstance (devToolsInternals env cfg) inst =
          Some (f inst)) \<and>
   (findFiberByHostInstance cfg = None \<longrightarrow>
        internalsFindFiberByHostInstance (devToolsInternals env cfg) inst = None) \<and>
   (findCurrentHostFiber env fiber = None \<longrightarrow>
        findHostInstanceByFiber (devToolsInternals env cfg) fiber = JNull) \<and>
   (\<forall>hostFiber. findCurrentHostFiber env fiber = Some hostFiber \<longrightarrow>
        findHostInstanceByFiber (devToolsInternals env cfg) fiber = stateNode hostFiber) \<and>
   injectIntoDevTools env cfg = injectInternals env (devToolsInternals env cfg)"
  by (simp add: devToolsInternals_def injectIntoDevTools_def)

text \<open>
  A configuration with a reverse lookup and the same configuration without one; a fiber
  with a host node and one without.
\<close>

theorem injectIntoDevTools_lookups_witness:
  "findFiberByHostInstance demo_config = Some (\<lambda>i. demo_hostFiber) \<and>
   internalsFindFiberByHostInstance (devToolsInternals demo_env demo_config) (JObject 10) =
     Some demo_hostFiber \<and>
   findFiberByHostInstance (demo_config\<lparr>findFiberByHostInstance := None\<rparr>) = None \<and>
   internalsFindFiberByHostInstance
     (devToolsInternals demo_env (demo_config\<lparr>findFiberByHostInstance := None\<rparr>))
     (JObject 10) = None \<and>
   findCurrentHostFiber demo_env demo_classFiber = Some demo_hostFiber \<and>
   findHostInstanceByFiber (devToolsInternals demo_env demo_config) demo_classFiber =
     JObject 10 \<and>
   findCurrentHostFiber demo_env demo_emptyFiber = None \<and>
   findHostInstanceByFiber (devToolsInternals demo_env demo_config) demo_emptyFiber = JNull \<and>
   injectIntoDevTools demo_env demo_config"
proof -
  have a: "findFiberByHostInstance demo_config = Some (\<lambda>i. demo_hostFiber)"
    and b: "findFiberByHostInstance (demo_config\<lparr>findFiberByHostInstance := None\<rparr>) = None"
    and c: "findCurrentHostFiber demo_env demo_classFiber = Some demo_hostFiber"
    and d: "findCurrentHostFiber demo_env demo_emptyFiber = None"
    and e: "stateNode demo_hostFiber = JObject 10"
    and f: "injectInternals demo_env (devToolsInternals demo_env demo_config)"
    by (simp_all add: demo_defs)
  show ?thesis
    using a b c d e f
      injectIntoDevTools_lookups [where env = demo_env and cfg = demo_config
        and inst = "JObject 10" and fiber = demo_classFiber]
      injectIntoDevTools_lookups [where env = demo_env
        and cfg = "demo_config\<lparr>findFiberByHostInstance := None\<rparr>"
        and inst = "JObject 10" and fiber = demo_emptyFiber]
      injectIntoDevTools_lookups [where env = demo_env and cfg = demo_config
        and inst = "JObject 10" and fiber = demo_emptyFiber]
    by simp
qed

section \<open>The lookup that stops at portals\<close>

text \<open>
  Claim C10. \<open>findHostInstanceWithNoPortals\<close> takes a fiber, makes no check on a handle and
  throws nothing of its own: for every fiber it returns \<open>null\<close> when
  \<open>findCurrentHostFiberWithNoPortals\<close> finds no host fiber and the \<open>stateNode\<close> of the
  host fiber found otherwise.
\<close>

theorem findHostInstanceWithNoPortals_total:
  "(findCurrentHostFiberWithNoPortals env fiber = None \<longrightarrow>
      findHostInstanceWithNoPortals env fiber = JNull) \<and>
   (\<forall>hostFiber. findCurrentHostFiberWithNoPortals env fiber = Some hostFiber \<longrightarrow>
      findHostInstanceWithNoPortals env fiber = stateNode hostFiber)"
  by (simp add: findHostInstanceWithNoPortals_def)

theorem findHostInstanceWithNoPortals_total_witness:
  "findCurrentHostFiberWithNoPortals demo_env demo_classFiber = Some demo_hostFiber \<and>
   findHostInstanceWithNoPortals demo_env demo_classFiber = JObject 10 \<and>
   findCurrentHostFiberWithNoPortals demo_env demo_emptyFiber = None \<and>
   findHostInstanceWithNoPortals demo_env demo_emptyFiber = JNull"
proof -
  have a: "findCurrentHostFiberWithNoPortals demo_env demo_classFiber = Some demo_hostFiber"
    and b: "findCurrentHostFiberWithNoPortals demo_env demo_emptyFiber = None"
    and c: "stateNode demo_hostFiber = JObject 10"
    by (simp_all add: demo_defs)
  show ?thesis
    using a b c
      findHostInstanceWithNoPortals_total [where env = demo_env and fiber = demo_classFiber]
      findHostInstanceWithNoPortals_total [where env = demo_env and fiber = demo_emptyFiber]
    by simp
qed

end
